theory Spec2Isabelle
  imports Complex_Main "HOL-Library.Log_Nat" "HOL-Library.Sublist"
begin

section \<open>Python values used by \<open>hack/app.py\<close>\<close>

subsection \<open>Strings\<close>

text \<open>
  A Python \<open>str\<close> is a \<^typ>\<open>string\<close>, one \<^typ>\<open>char\<close> per character (the model covers
  the characters below 256). \<open>str.strip()\<close> removes the characters for which
  \<open>str.isspace()\<close> holds: tab to carriage return, the four separators 28 to 31, the
  space, and the next-line and no-break space characters 133 and 160.
  \<open>str.lower()\<close> maps \<open>A\<close>-\<open>Z\<close> to \<open>a\<close>-\<open>z\<close>.
\<close>

definition is_space :: "char \<Rightarrow> bool" where
  "is_space c = ((of_char c :: nat) \<in> {9, 10, 11, 12, 13, 28, 29, 30, 31, 32, 133, 160})"

definition strip :: "string \<Rightarrow> string" where
  "strip s = rev (dropWhile is_space (rev (dropWhile is_space s)))"

definition lower_char :: "char \<Rightarrow> char" where
  "lower_char c = (let n = (of_char c :: nat) in if 65 \<le> n \<and> n \<le> 90 then char_of (n + 32) else c)"

definition lower :: "string \<Rightarrow> string" where
  "lower s = map lower_char s"

definition startswith :: "string \<Rightarrow> string \<Rightarrow> bool" where
  "startswith s p = (take (length p) s = p)"

text \<open>\<open>sub in s\<close> on strings: \<open>sub\<close> occurs in \<open>s\<close> as a contiguous run.\<close>

fun py_in :: "string \<Rightarrow> string \<Rightarrow> bool" where
  "py_in sub [] = (sub = [])"
| "py_in sub (c # cs) = (startswith (c # cs) sub \<or> py_in sub cs)"

text \<open>A truthy \<open>Optional[str]\<close>: neither \<open>None\<close> nor the empty string.\<close>

definition truthy :: "string option \<Rightarrow> bool" where
  "truthy v = (case v of None \<Rightarrow> False | Some s \<Rightarrow> s \<noteq> [])"

text \<open>\<open>f"{n}"\<close> for a non-negative \<open>int\<close>.\<close>

fun str_of_nat :: "nat \<Rightarrow> string" where
  "str_of_nat n = (if n < 10 then [char_of (48 + n)] else str_of_nat (n div 10) @ [char_of (48 + n mod 10)])"

declare str_of_nat.simps [simp del]

subsection \<open>Floats\<close>

text \<open>
  A finite Python \<open>float\<close> is the rational number it stands for. Every arithmetic
  operation yields the exact result rounded to the nearest value with a 53-bit significand,
  ties to even; \<open>fl\<close> is that rounding (exponent range unbounded: overflow to infinity and
  subnormal results are outside the model).
\<close>

definition round_half_even :: "rat \<Rightarrow> int" where
  "round_half_even x =
     (let f = \<lfloor>x\<rfloor>; r = x - of_int f
      in if r < 1 / 2 then f else if 1 / 2 < r then f + 1 else if even f then f else f + 1)"

definition ilog2 :: "rat \<Rightarrow> int" where
  "ilog2 x = (case quotient_of x of (p, q) \<Rightarrow>
     (let d = bitlen p - bitlen q in if 2 powi d \<le> x then d else d - 1))"

definition fl :: "rat \<Rightarrow> rat" where
  "fl x = (if x = 0 then 0
           else let u = 2 powi (ilog2 \<bar>x\<bar> - 52)
                in of_int (round_half_even (x / u)) * u)"

definition fadd :: "rat \<Rightarrow> rat \<Rightarrow> rat" where "fadd a b = fl (a + b)"
definition fsub :: "rat \<Rightarrow> rat \<Rightarrow> rat" where "fsub a b = fl (a - b)"
definition fmul :: "rat \<Rightarrow> rat \<Rightarrow> rat" where "fmul a b = fl (a * b)"

text \<open>\<open>float(i)\<close> and the true division \<open>a / b\<close> of two ints (the callers guard \<open>b \<noteq> 0\<close>).\<close>

definition float_of_int :: "int \<Rightarrow> rat" where "float_of_int i = fl (of_int i)"
definition int_truediv :: "int \<Rightarrow> int \<Rightarrow> rat" where "int_truediv a b = fl (of_int a / of_int b)"

text \<open>\<open>round(x)\<close> of a float is an \<open>int\<close>, \<open>round(x, n)\<close> a float; both round half to even.\<close>

definition py_round :: "rat \<Rightarrow> int" where "py_round x = round_half_even x"

definition py_round_nd :: "rat \<Rightarrow> nat \<Rightarrow> rat" where
  "py_round_nd x n = fl (of_int (round_half_even (x * 10 ^ n)) / 10 ^ n)"

text \<open>
  \<open>f"{x}"\<close> for a float is \<open>repr(x)\<close>: the shortest run of decimal digits that reads back
  as \<open>x\<close> (the closest to \<open>x\<close> among the shortest), written with a decimal point when
  the decimal exponent lies between -4 and 16 and in exponent notation otherwise.
  \<open>dec_len\<close> counts the decimal digits of an int, \<open>digits_of\<close> writes them; the last
  equation of \<open>shortest_digits\<close> is reached only by a rational that is no float.
\<close>

function dec_len :: "int \<Rightarrow> int" where
  "dec_len n = (if n \<le> 0 then 0 else dec_len (n div 10) + 1)"
  by pat_completeness auto
termination
  by (relation "measure nat") auto

function digits_of :: "int \<Rightarrow> string" where
  "digits_of m = (if m < 10 then [char_of (48 + m)] else digits_of (m div 10) @ [char_of (48 + m mod 10)])"
  by pat_completeness auto
termination
  by (relation "measure nat") auto

declare dec_len.simps [simp del] digits_of.simps [simp del]

definition ilog10 :: "rat \<Rightarrow> int" where
  "ilog10 x = (case quotient_of x of (p, q) \<Rightarrow>
     (let d = dec_len p - dec_len q in if 10 powi d \<le> x then d else d - 1))"

definition digits_candidate :: "rat \<Rightarrow> int \<Rightarrow> nat \<Rightarrow> int option" where
  "digits_candidate x k n =
     (let scale = 10 powi (k - int n); y = x / scale; lo = \<lfloor>y\<rfloor>; hi = lo + 1;
          ok_lo = (fl (of_int lo * scale) = x);
          ok_hi = (of_int lo \<noteq> y \<and> fl (of_int hi * scale) = x)
      in if ok_lo \<and> ok_hi
         then (if y - of_int lo < of_int hi - y then Some lo
               else if of_int hi - y < y - of_int lo then Some hi
               else if even lo then Some lo else Some hi)
         else if ok_lo then Some lo
         else if ok_hi then Some hi
         else None)"

fun shortest_digits :: "rat \<Rightarrow> int \<Rightarrow> nat list \<Rightarrow> int \<times> nat" where
  "shortest_digits x k [] = (round_half_even (x / 10 powi (k - 17)), 17)"
| "shortest_digits x k (n # ns) =
     (case digits_candidate x k n of Some m \<Rightarrow> (m, n) | None \<Rightarrow> shortest_digits x k ns)"

definition float_str_pos :: "rat \<Rightarrow> string" where
  "float_str_pos x =
     (let k = ilog10 x + 1;
          (m, n) = shortest_digits x k [1..<18];
          all_digits = digits_of m;
          decpt = k - int n + int (length all_digits);
          ds = rev (dropWhile (\<lambda>c. c = CHR ''0'') (rev all_digits))
      in if - 4 < decpt \<and> decpt \<le> 16
         then (if decpt \<le> 0 then ''0.'' @ replicate (nat (- decpt)) (CHR ''0'') @ ds
               else if decpt \<ge> int (length ds)
               then ds @ replicate (nat decpt - length ds) (CHR ''0'') @ ''.0''
               else take (nat decpt) ds @ ''.'' @ drop (nat decpt) ds)
         else (let e = decpt - 1
               in take 1 ds @ (if length ds > 1 then ''.'' @ drop 1 ds else [])
                  @ ''e'' @ (if e < 0 then ''-'' else ''+'')
                  @ (if \<bar>e\<bar> < 10 then ''0'' else []) @ digits_of \<bar>e\<bar>))"

definition float_str :: "rat \<Rightarrow> string" where
  "float_str x = (if x = 0 then ''0.0'' else if x < 0 then ''-'' @ float_str_pos (- x) else float_str_pos x)"

text \<open>
  A number whose Python type depends on the path taken: \<open>score\<close> in
  \<open>analyze_accessibility\<close> starts as the int 100 and turns into a float at the first
  proportional deduction; \<open>lcp\<close> and \<open>fcp\<close> are the int 0 when no load time was measured.
\<close>

datatype pynum = PyInt int | PyFloat rat

fun num_val :: "pynum \<Rightarrow> rat" where
  "num_val (PyInt i) = of_int i"
| "num_val (PyFloat x) = x"

fun to_float :: "pynum \<Rightarrow> rat" where
  "to_float (PyInt i) = float_of_int i"
| "to_float (PyFloat x) = x"

fun num_sub_int :: "pynum \<Rightarrow> int \<Rightarrow> pynum" where
  "num_sub_int (PyInt i) k = PyInt (i - k)"
| "num_sub_int (PyFloat x) k = PyFloat (fsub x (float_of_int k))"

definition num_sub_float :: "pynum \<Rightarrow> rat \<Rightarrow> pynum" where
  "num_sub_float n d = PyFloat (fsub (to_float n) d)"

text \<open>\<open>min(a, b)\<close> and \<open>max(a, b)\<close> return their first argument unless the second is strictly better.\<close>

definition num_min :: "pynum \<Rightarrow> pynum \<Rightarrow> pynum" where
  "num_min a b = (if num_val b < num_val a then b else a)"

definition num_max :: "pynum \<Rightarrow> pynum \<Rightarrow> pynum" where
  "num_max a b = (if num_val a < num_val b then b else a)"

fun num_round_nd :: "pynum \<Rightarrow> nat \<Rightarrow> pynum" where
  "num_round_nd (PyInt i) n = PyInt i"
| "num_round_nd (PyFloat x) n = PyFloat (py_round_nd x n)"

section \<open>The artifacts an audit works on\<close>

subsection \<open>The fetched response\<close>

text \<open>
  \<open>requests.Response\<close>: \<open>headers\<close> is a case-insensitive dictionary, \<open>content\<close> the body
  bytes, \<open>text\<close> the decoded body. A response is truthy when its status is no error status.
\<close>

record response =
  status_code :: int
  headers :: "(string \<times> string) list"
  content :: string
  resp_text :: string

definition headers_get :: "response \<Rightarrow> string \<Rightarrow> string option" where
  "headers_get r k = map_of (map (\<lambda>(n, v). (lower n, v)) (headers r)) (lower k)"

definition in_headers :: "string \<Rightarrow> response \<Rightarrow> bool" where
  "in_headers k r = (headers_get r k \<noteq> None)"

definition response_ok :: "response \<Rightarrow> bool" where
  "response_ok r = (\<not> (400 \<le> status_code r \<and> status_code r < 600))"

subsection \<open>The parsed document\<close>

text \<open>
  The tree \<open>BeautifulSoup(html, "html.parser")\<close> builds: tags with a name, an attribute
  dictionary and contents, and strings. The document object is itself a tag.
\<close>

datatype node = Tag string "(string \<times> string) list" "node list" | NavigableString string

fun descendants :: "node \<Rightarrow> node list" where
  "descendants (NavigableString s) = []"
| "descendants (Tag n a cs) = concat (map (\<lambda>c. c # descendants c) cs)"

fun is_tag :: "string \<Rightarrow> node \<Rightarrow> bool" where
  "is_tag name (Tag n a cs) = (n = name)"
| "is_tag name (NavigableString s) = False"

fun tag_get :: "node \<Rightarrow> string \<Rightarrow> string option" where
  "tag_get (Tag n a cs) k = map_of a k"
| "tag_get (NavigableString s) k = None"

text \<open>\<open>.string\<close>: the single string a tag holds, directly or through single children.\<close>

fun tag_string :: "node \<Rightarrow> string option" where
  "tag_string (NavigableString s) = Some s"
| "tag_string (Tag n a [c]) = tag_string c"
| "tag_string (Tag n a cs) = None"

definition find_all :: "node \<Rightarrow> string \<Rightarrow> node list" where
  "find_all soup name = filter (is_tag name) (descendants soup)"

definition find_all_attr :: "node \<Rightarrow> string \<Rightarrow> string \<Rightarrow> (string \<Rightarrow> bool) \<Rightarrow> node list" where
  "find_all_attr soup name k matches =
     filter (\<lambda>t. case tag_get t k of None \<Rightarrow> False | Some v \<Rightarrow> matches v) (find_all soup name)"

definition first :: "'a list \<Rightarrow> 'a option" where
  "first xs = (case xs of [] \<Rightarrow> None | x # _ \<Rightarrow> Some x)"

definition find_tag :: "node \<Rightarrow> string \<Rightarrow> node option" where
  "find_tag soup name = first (find_all soup name)"

subsection \<open>The outside world\<close>

text \<open>
  What the program reads from outside itself, as functions an audit is given:
  the TLS handshake (\<open>None\<close> on success, the exception text otherwise), the GET of a URL
  with the seconds it took (\<open>None\<close> when \<open>requests.get\<close> raises), the status of a HEAD
  (\<open>None\<close> when \<open>requests.head\<close> raises), the successive values of \<open>random.random()\<close>,
  the clock, \<open>urlparse(url).netloc\<close> (\<open>None\<close> when it raises) and the HTML parser.
\<close>

record env =
  tls_handshake :: "string \<Rightarrow> string option"
  http_get :: "string \<Rightarrow> (response \<times> rat) option"
  http_head :: "string \<Rightarrow> int option"
  rand :: "nat \<Rightarrow> rat"
  utcnow :: string
  netloc :: "string \<Rightarrow> string option"
  html_parser :: "string \<Rightarrow> node"

text \<open>
  The state an audit threads: how many random numbers were drawn, and the network calls
  made so far, oldest first.
\<close>

datatype effect = TlsProbe string | HttpGet string | HttpHead string

record state =
  rng_pos :: nat
  net_log :: "effect list"

definition random_random :: "env \<Rightarrow> state \<Rightarrow> rat \<times> state" where
  "random_random e s = (rand e (rng_pos s), s\<lparr>rng_pos := rng_pos s + 1\<rparr>)"

text \<open>\<open>random.uniform(a, b)\<close> is \<open>a + (b - a) * random()\<close>.\<close>

definition random_uniform :: "env \<Rightarrow> rat \<Rightarrow> rat \<Rightarrow> state \<Rightarrow> rat \<times> state" where
  "random_uniform e a b s = (case random_random e s of (u, s') \<Rightarrow> (fadd a (fmul (fsub b a) u), s'))"

definition log_call :: "effect \<Rightarrow> state \<Rightarrow> state" where
  "log_call c s = s\<lparr>net_log := net_log s @ [c]\<rparr>"

section \<open>The program\<close>

definition normalize_url :: "string \<Rightarrow> string" where
  "normalize_url url0 =
     (let url = strip url0
      in if \<not> (startswith url ''http://'' \<or> startswith url ''https://'') then ''https://'' @ url else url)"

definition hostname_from_url :: "env \<Rightarrow> string \<Rightarrow> string" where
  "hostname_from_url e url =
     (case netloc e url of None \<Rightarrow> url | Some n \<Rightarrow> if n \<noteq> [] then n else url)"

definition fetch_page :: "env \<Rightarrow> string \<Rightarrow> state \<Rightarrow> (response option \<times> rat option) \<times> state" where
  "fetch_page e url s =
     (case http_get e url of
        Some (resp, seconds) \<Rightarrow> ((Some resp, Some (py_round_nd seconds 2)), log_call (HttpGet url) s)
      | None \<Rightarrow> ((None, None), log_call (HttpGet url) s))"

definition check_ssl_valid :: "env \<Rightarrow> string \<Rightarrow> state \<Rightarrow> (bool \<times> string) \<times> state" where
  "check_ssl_valid e hostname s =
     (case tls_handshake e hostname of
        None \<Rightarrow> ((True, ''Valid''), log_call (TlsProbe hostname) s)
      | Some err \<Rightarrow> ((False, err), log_call (TlsProbe hostname) s))"

definition letter_grade :: "int \<Rightarrow> string" where
  "letter_grade score =
     (if score \<ge> 90 then ''A+''
      else if score \<ge> 80 then ''A''
      else if score \<ge> 70 then ''B''
      else if score \<ge> 60 then ''C''
      else if score \<ge> 50 then ''D''
      else ''F'')"

definition SECURITY_HEADERS :: "string list" where
  "SECURITY_HEADERS =
     [''Content-Security-Policy'', ''Strict-Transport-Security'', ''X-Content-Type-Options'',
      ''X-Frame-Options'', ''Referrer-Policy'', ''Permissions-Policy'']"

subsection \<open>\<open>analyze_security\<close>\<close>

record security_metrics =
  sec_score :: int
  ssl_valid :: bool
  security_headers :: "(string \<times> bool) list"
  phishing_risk :: string

text \<open>The score and issues before the result dictionary is built (lines 76 to 101).\<close>

definition security_score_issues :: "response option \<Rightarrow> bool \<Rightarrow> int \<times> string list" where
  "security_score_issues resp ssl_ok =
     (let score = 100; issues = [];
          (score, issues) = (if \<not> ssl_ok then (score - 40, issues @ [''Invalid SSL/TLS certificate.''])
                             else (score, issues))
      in case resp of
           Some r \<Rightarrow>
             (let missing_headers = filter (\<lambda>h. \<not> in_headers h r) SECURITY_HEADERS;
                  (score, issues) =
                    (if missing_headers \<noteq> []
                     then (score - int (length missing_headers) * 10,
                           issues @ map (\<lambda>h. ''Missing '' @ h @ '' header.'') missing_headers)
                     else (score, issues));
                  set_cookie = headers_get r ''Set-Cookie''
              in if truthy set_cookie
                 then (let c = lower (case set_cookie of Some v \<Rightarrow> v | None \<Rightarrow> []);
                           has_secure = py_in ''secure'' c;
                           has_httponly = py_in ''httponly'' c;
                           (score, issues) = (if \<not> has_secure
                                              then (score - 10, issues @ [''Cookies missing Secure flag.''])
                                              else (score, issues));
                           (score, issues) = (if \<not> has_httponly
                                              then (score - 10, issues @ [''Cookies missing HttpOnly flag.''])
                                              else (score, issues))
                       in (score, issues))
                 else (score, issues))
         | None \<Rightarrow> (0, issues @ [''Could not fetch page for security analysis.'']))"

definition analyze_security ::
  "env \<Rightarrow> response option \<Rightarrow> bool \<Rightarrow> state \<Rightarrow> (security_metrics \<times> string list) \<times> state" where
  "analyze_security e resp ssl_ok s =
     (case security_score_issues resp ssl_ok of (score, issues) \<Rightarrow>
      case random_random e s of (u, s') \<Rightarrow>
        ((\<lparr>sec_score = max 0 score,
           ssl_valid = ssl_ok,
           security_headers =
             (case resp of
                Some r \<Rightarrow> if response_ok r then map (\<lambda>h. (h, in_headers h r)) SECURITY_HEADERS else []
              | None \<Rightarrow> []),
           phishing_risk = (if u > fl 0.1 then ''LOW RISK'' else ''HIGH RISK'')\<rparr>,
          issues), s'))"

subsection \<open>\<open>analyze_performance\<close>\<close>

record perf_metrics =
  perf_status_code :: int
  load_time_s :: "rat option"
  page_size_kb :: rat
  metrics_lcp :: pynum
  metrics_fcp :: pynum
  metrics_cls :: pynum

text \<open>
  Everything up to the \<open>return\<close> for a fetched response (lines 116 to 147): the metrics
  before rounding, the score before clamping, and the issues.
\<close>

definition performance_measure ::
  "env \<Rightarrow> response \<Rightarrow> rat option \<Rightarrow> state \<Rightarrow> (rat \<times> pynum \<times> pynum \<times> rat \<times> int \<times> string list) \<times> state" where
  "performance_measure e r load_time s =
     (let issues = []; score = 100;
          size_kb = py_round_nd (int_truediv (int (length (content r))) 1024) 2;
          ((lcp, fcp), s) =
            (case load_time of
               Some t \<Rightarrow>
                 (case random_uniform e (fmul t (fl 0.8)) (fmul t (fl 1.2)) s of (l, s) \<Rightarrow>
                  case random_uniform e (fmul t (fl 0.4)) (fmul t (fl 0.8)) s of (f, s) \<Rightarrow>
                    ((PyFloat l, PyFloat f), s))
             | None \<Rightarrow> ((PyInt 0, PyInt 0), s));
          (cls, s) = random_uniform e (fl 0.0) (fl 0.25) s;
          (score, issues) =
            (if num_val lcp > fl 2.5
             then (score - 20, issues @ [''High Largest Contentful Paint (LCP) - Page rendering is slow.''])
             else (score, issues));
          (score, issues) =
            (if num_val fcp > fl 1.8
             then (score - 15,
                   issues @ [''High First Contentful Paint (FCP) - Initial content took time to display.''])
             else (score, issues));
          (score, issues) =
            (if cls > fl 0.1
             then (score - 10, issues @ [''High Cumulative Layout Shift (CLS) - Page layout is unstable.''])
             else (score, issues));
          (score, issues) =
            (case load_time of
               None \<Rightarrow> (score - 20, issues @ [''Could not measure load time.''])
             | Some t \<Rightarrow>
                 if t > 6 then (score - 45, issues @ [''Very high load time '' @ float_str t @ ''s.''])
                 else if t > 4 then (score - 30, issues @ [''High load time '' @ float_str t @ ''s.''])
                 else if t > 2 then (score - 15, issues @ [''Moderate load time '' @ float_str t @ ''s.''])
                 else (score, issues));
          (score, issues) =
            (if size_kb > 4096
             then (score - 30,
                   issues @ [''Page very large: '' @ float_str size_kb @ '' KB. Consider optimizing assets.''])
             else if size_kb > 2048
             then (score - 20,
                   issues @ [''Page large: '' @ float_str size_kb @ '' KB. Consider optimizing assets.''])
             else if size_kb > 1024
             then (score - 10, issues @ [''Page medium: '' @ float_str size_kb @ '' KB. Could be optimized.''])
             else (score, issues))
      in ((size_kb, lcp, fcp, cls, score, issues), s))"

definition analyze_performance ::
  "env \<Rightarrow> response option \<Rightarrow> rat option \<Rightarrow> state \<Rightarrow> (perf_metrics option \<times> int \<times> string list) \<times> state" where
  "analyze_performance e resp load_time s =
     (case resp of
        None \<Rightarrow> ((None, 0, [''Site not reachable for performance test.'']), s)
      | Some r \<Rightarrow>
          (case performance_measure e r load_time s of ((size_kb, lcp, fcp, cls, score, issues), s') \<Rightarrow>
             ((Some \<lparr>perf_status_code = status_code r,
                     load_time_s = load_time,
                     page_size_kb = size_kb,
                     metrics_lcp = num_round_nd lcp 2,
                     metrics_fcp = num_round_nd fcp 2,
                     metrics_cls = PyFloat (py_round_nd cls 3)\<rparr>,
               max 0 (min 100 score), issues), s')))"

subsection \<open>\<open>analyze_seo\<close>\<close>

record seo_metrics =
  seo_title :: "string option"
  meta_description :: "string option"
  h1_count :: nat
  og_tags_dict :: "string \<Rightarrow> string option option"
  robots_txt_status :: string
  sitemap_xml_status :: string

text \<open>
  The two patterns: \<open>re.compile("description", re.I)\<close> is searched for anywhere in the
  attribute value, \<open>re.compile(r"^og:", re.I)\<close> only at its start.
\<close>

definition re_description :: "string \<Rightarrow> bool" where
  "re_description v = py_in ''description'' (lower v)"

definition re_og :: "string \<Rightarrow> bool" where
  "re_og v = startswith (lower v) ''og:''"

text \<open>
  The checks on the markup (lines 161 to 189): title, meta description, \<open>h1\<close> tags,
  Open Graph tags, and the score and issues they leave.
\<close>

definition seo_markup ::
  "node \<Rightarrow> string option \<times> string option \<times> node list \<times> node list \<times> int \<times> string list" where
  "seo_markup soup =
     (let issues = []; score = 0;
          title_tag =
            (case find_tag soup ''title'' of
               None \<Rightarrow> None
             | Some t \<Rightarrow> if truthy (tag_string t) then map_option strip (tag_string t) else None);
          (score, issues) =
            (case title_tag of
               Some t \<Rightarrow>
                 if t \<noteq> []
                 then (if 10 \<le> length t \<and> length t \<le> 70 then (score + 20 + 10, issues)
                       else (score + 20,
                             issues @ [''Title length not optimal (10-70 characters recommended).'']))
                 else (score, issues @ [''Missing <title> tag.''])
             | None \<Rightarrow> (score, issues @ [''Missing <title> tag.'']));
          meta_desc_tag = first (find_all_attr soup ''meta'' ''name'' re_description);
          meta_desc = (case meta_desc_tag of Some t \<Rightarrow> tag_get t ''content'' | None \<Rightarrow> None);
          (score, issues) =
            (case meta_desc of
               Some d \<Rightarrow>
                 if d \<noteq> [] \<and> length (strip d) > 0
                 then (let desc_len = length (strip d)
                       in if 50 \<le> desc_len \<and> desc_len \<le> 160 then (score + 20 + 10, issues)
                          else (score + 20,
                                issues @ [''Meta description length not optimal (50-160 characters recommended).'']))
                 else (score, issues @ [''Missing meta description.''])
             | None \<Rightarrow> (score, issues @ [''Missing meta description.'']));
          h1_tags = find_all soup ''h1'';
          (score, issues) =
            (if length h1_tags = 1 then (score + 10, issues)
             else if length h1_tags > 1
             then (score, issues @ [''Multiple <h1> headings found. Use only one per page.''])
             else (score, issues @ [''Missing heading.'']));
          og_tags = find_all_attr soup ''meta'' ''property'' re_og;
          (score, issues) =
            (if og_tags = []
             then (score - 20,
                   issues @ [''Missing Open Graph tags. These are essential for social media sharing.''])
             else (score, issues))
      in (title_tag, meta_desc, h1_tags, og_tags, score, issues))"

text \<open>\<open>{tag.get("property"): tag.get("content") for tag in og_tags}\<close>: a later tag overwrites.\<close>

fun og_tag_details :: "node list \<Rightarrow> string \<Rightarrow> string option option" where
  "og_tag_details [] = (\<lambda>k. None)"
| "og_tag_details (t # ts) =
     (\<lambda>k. case og_tag_details ts k of
             Some c \<Rightarrow> Some c
           | None \<Rightarrow> if tag_get t ''property'' = Some k then Some (tag_get t ''content'') else None)"

definition analyze_seo ::
  "env \<Rightarrow> string option \<Rightarrow> string \<Rightarrow> state \<Rightarrow> (seo_metrics option \<times> int \<times> string list) \<times> state" where
  "analyze_seo e html url s =
     (if \<not> truthy html then ((None, 0, [''No HTML fetched for SEO.'']), s)
      else
        (case seo_markup (html_parser e (case html of Some h \<Rightarrow> h | None \<Rightarrow> [])) of
           (title_tag, meta_desc, h1_tags, og_tags, score, issues) \<Rightarrow>
        (let robots_url = normalize_url url @ ''/robots.txt'';
             s = log_call (HttpHead robots_url) s;
             (robots_txt_status, issues) =
               (case http_head e robots_url of
                  Some code \<Rightarrow>
                    if code = 200 then (''Found'', issues)
                    else (''Not Found'',
                          issues @ [''robots.txt file not found. This may impact search engine crawling.''])
                | None \<Rightarrow> (''Not Found'', issues @ [''Could not check for robots.txt.'']));
             sitemap_url = normalize_url url @ ''/sitemap.xml'';
             s = log_call (HttpHead sitemap_url) s;
             (sitemap_xml_status, issues) =
               (case http_head e sitemap_url of
                  Some code \<Rightarrow>
                    if code = 200 then (''Found'', issues)
                    else (''Not Found'', issues @ [''sitemap.xml file not found. This is recommended for SEO.''])
                | None \<Rightarrow> (''Not Found'', issues @ [''Could not check for sitemap.xml.'']))
         in ((Some \<lparr>seo_title = title_tag,
                    meta_description = meta_desc,
                    h1_count = length h1_tags,
                    og_tags_dict = og_tag_details og_tags,
                    robots_txt_status = robots_txt_status,
                    sitemap_xml_status = sitemap_xml_status\<rparr>,
              max 0 (min 100 score), issues), s))))"

subsection \<open>\<open>analyze_accessibility\<close>\<close>

text \<open>The score before clamping, and the issues (lines 225 to 245).\<close>

definition accessibility_markup :: "node \<Rightarrow> pynum \<times> string list" where
  "accessibility_markup soup =
     (let issues = []; score = PyInt 100;
          images = find_all soup ''img'';
          images_without_alt = filter (\<lambda>img. \<not> truthy (tag_get img ''alt'')) images;
          (score, issues) =
            (if images \<noteq> [] \<and> length images_without_alt > 0
             then (num_sub_float score
                     (fmul (int_truediv (int (length images_without_alt)) (int (length images)))
                        (float_of_int 30)),
                   issues @ [str_of_nat (length images_without_alt) @ '' images missing alt attributes.''])
             else (score, issues));
          (score, issues) =
            (if find_tag soup ''h1'' = None then (num_sub_int score 10, issues @ [''Missing heading.''])
             else (score, issues));
          (score, issues) =
            (if (case find_tag soup ''html'' of None \<Rightarrow> True | Some h \<Rightarrow> \<not> truthy (tag_get h ''lang''))
             then (num_sub_int score 10, issues @ [''Missing lang attribute on <html> tag.''])
             else (score, issues));
          links = find_all soup ''a'';
          empty_links =
            filter (\<lambda>a. case tag_string a of None \<Rightarrow> True | Some t \<Rightarrow> t = [] \<or> strip t = []) links;
          (score, issues) =
            (if links \<noteq> [] \<and> length empty_links > 0
             then (num_sub_float score
                     (fmul (int_truediv (int (length empty_links)) (int (length links))) (float_of_int 10)),
                   issues @ [str_of_nat (length empty_links) @ '' links with no text.''])
             else (score, issues))
      in (score, issues))"

definition analyze_accessibility :: "env \<Rightarrow> string option \<Rightarrow> string \<Rightarrow> pynum \<times> string list" where
  "analyze_accessibility e html url =
     (if \<not> truthy html then (PyInt 0, [''No HTML fetched for accessibility.''])
      else
        (case accessibility_markup (html_parser e (case html of Some h \<Rightarrow> h | None \<Rightarrow> [])) of
           (score, issues) \<Rightarrow> (num_max (PyInt 0) (num_min (PyInt 100) score), issues)))"

subsection \<open>The \<open>/audit\<close> endpoint\<close>

datatype weight_key = Security | Performance | Seo | Accessibility

fun WEIGHTS :: "weight_key \<Rightarrow> rat" where
  "WEIGHTS Security = fl 0.35"
| "WEIGHTS Performance = fl 0.30"
| "WEIGHTS Seo = fl 0.25"
| "WEIGHTS Accessibility = fl 0.10"

text \<open>The JSON object of a successful audit; the nested objects are flattened into fields.\<close>

record report =
  timestamp :: string
  report_url :: string
  report_status :: string
  overall_score :: int
  overall_grade :: string
  security :: security_metrics
  ssl_error :: string
  security_issues :: "string list"
  performance :: "perf_metrics option"
  performance_score :: int
  performance_issues :: "string list"
  seo :: "seo_metrics option"
  seo_score :: int
  seo_issues :: "string list"
  accessibility_score :: pynum
  accessibility_issues :: "string list"
  critical :: int
  minor :: int

text \<open>The weighted sum of lines 273 to 278, evaluated left to right in floats, and rounded.\<close>

definition overall_of :: "int \<Rightarrow> int \<Rightarrow> int \<Rightarrow> pynum \<Rightarrow> int" where
  "overall_of sec perf seo_s acc =
     py_round
       (fadd (fadd (fadd (fmul (float_of_int sec) (WEIGHTS Security))
                         (fmul (float_of_int perf) (WEIGHTS Performance)))
                   (fmul (float_of_int seo_s) (WEIGHTS Seo)))
             (fmul (to_float acc) (WEIGHTS Accessibility)))"

definition is_critical :: "string \<Rightarrow> bool" where
  "is_critical i = (py_in ''Missing'' i \<or> py_in ''Invalid'' i \<or> py_in ''High'' i)"

text \<open>
  The handler: the \<open>url\<close> member of the request's JSON object (\<open>None\<close> when the body or the
  member is missing) to an error with its HTTP status, or the report.
\<close>

definition audit :: "env \<Rightarrow> string option \<Rightarrow> state \<Rightarrow> (int \<times> string + report) \<times> state" where
  "audit e data_url s =
     (let url = normalize_url (case data_url of None \<Rightarrow> [] | Some u \<Rightarrow> u)
      in if url = [] then (Inl (400, ''URL required''), s)
         else
           (let host = hostname_from_url e url
            in case check_ssl_valid e host s of ((ssl_ok, ssl_err), s) \<Rightarrow>
               case fetch_page e url s of ((resp, load_time), s) \<Rightarrow>
               (case resp of
                  None \<Rightarrow> (Inl (500, ''Failed to fetch page.''), s)
                | Some r \<Rightarrow>
                    (case analyze_security e resp ssl_ok s of ((sec_metrics, sec_issues), s) \<Rightarrow>
                     case analyze_performance e resp load_time s of ((perf_metrics, perf_score, perf_issues), s) \<Rightarrow>
                     case analyze_seo e (Some (resp_text r)) url s of ((seo_metrics, seo_sc, seo_iss), s) \<Rightarrow>
                     case analyze_accessibility e (Some (resp_text r)) url of (acc_score, acc_issues) \<Rightarrow>
                     (let overall = overall_of (sec_score sec_metrics) perf_score seo_sc acc_score;
                          grade = letter_grade overall;
                          issues_combined = sec_issues @ perf_issues @ seo_iss @ acc_issues;
                          critical_issues = int (length (filter is_critical issues_combined));
                          minor_issues = int (length issues_combined) - critical_issues
                      in (Inr \<lparr>timestamp = utcnow e,
                               report_url = url,
                               report_status = ''success'',
                               overall_score = overall,
                               overall_grade = grade,
                               security = sec_metrics,
                               ssl_error = ssl_err,
                               security_issues = sec_issues,
                               performance = perf_metrics,
                               performance_score = perf_score,
                               performance_issues = perf_issues,
                               seo = seo_metrics,
                               seo_score = seo_sc,
                               seo_issues = seo_iss,
                               accessibility_score = acc_score,
                               accessibility_issues = acc_issues,
                               critical = critical_issues,
                               minor = minor_issues\<rparr>, s))))))"

section \<open>Example inputs\<close>

text \<open>
  A page with a title of 27 characters, a meta description of 70, one \<open>h1\<close>, one Open
  Graph tag, a language attribute, and neither images nor links.
\<close>

definition example_page :: node where
  "example_page = Tag ''[document]'' []
     [Tag ''html'' [(''lang'', ''en'')]
        [Tag ''head'' []
           [Tag ''title'' [] [NavigableString ''A perfectly fine page title''],
            Tag ''meta'' [(''name'', ''description''),
               (''content'', ''This description is long enough to fall inside the recommended range.'')] [],
            Tag ''meta'' [(''property'', ''og:title''), (''content'', ''A title'')] []],
         Tag ''body'' [] [Tag ''h1'' [] [NavigableString ''Welcome'']]]]"

text \<open>A response with the six security headers and no cookie, and one that also sets a cookie.\<close>

definition example_response :: response where
  "example_response =
     \<lparr>status_code = 200,
      headers = [(''content-security-policy'', ''default-src https:''),
                 (''Strict-Transport-Security'', ''max-age=63072000''),
                 (''X-Content-Type-Options'', ''nosniff''),
                 (''X-Frame-Options'', ''DENY''),
                 (''Referrer-Policy'', ''no-referrer''),
                 (''Permissions-Policy'', ''geolocation=()'')],
      content = ''<html lang=en>'',
      resp_text = ''<html lang=en>''\<rparr>"

definition cookie_response :: response where
  "cookie_response = example_response\<lparr>headers := headers example_response @ [(''Set-Cookie'', ''sid=1'')]\<rparr>"

text \<open>A response with none of the security headers and a cookie without flags.\<close>

definition bare_response :: response where
  "bare_response = example_response\<lparr>headers := [(''Set-Cookie'', ''sid=1'')]\<rparr>"

text \<open>
  A world where the certificate is rejected, every GET returns \<open>example_response\<close> after
  7 seconds, both HEAD probes find their file, and every random number is \<open>u\<close>.
\<close>

definition example_env :: "rat \<Rightarrow> env" where
  "example_env u =
     \<lparr>tls_handshake = (\<lambda>h. Some ''certificate verify failed''),
      http_get = (\<lambda>url. Some (example_response, 7)),
      http_head = (\<lambda>url. Some 200),
      rand = (\<lambda>n. u),
      utcnow = ''2024-01-01T00:00:00'',
      netloc = (\<lambda>url. Some (drop 8 url)),
      html_parser = (\<lambda>h. example_page)\<rparr>"

definition initial_state :: state where
  "initial_state = \<lparr>rng_pos = 0, net_log = []\<rparr>"

text \<open>A page with four images, one of them without an \<open>alt\<close> attribute.\<close>

definition four_images_page :: node where
  "four_images_page = Tag ''[document]'' []
     [Tag ''html'' [(''lang'', ''en'')]
        [Tag ''head'' [] [Tag ''title'' [] [NavigableString ''Gallery'']],
         Tag ''body'' []
           [Tag ''h1'' [] [NavigableString ''Gallery''],
            Tag ''img'' [(''src'', ''a.png''), (''alt'', ''first'')] [],
            Tag ''img'' [(''src'', ''b.png'')] [],
            Tag ''img'' [(''src'', ''c.png''), (''alt'', ''third'')] [],
            Tag ''img'' [(''src'', ''d.png''), (''alt'', ''fourth'')] []]]]"

definition gallery_env :: env where
  "gallery_env = (example_env 0)\<lparr>html_parser := (\<lambda>h. four_images_page)\<rparr>"

text \<open>The same response with a body of 500 KB.\<close>

definition slow_response :: response where
  "slow_response = example_response\<lparr>content := replicate (500 * 1024) (CHR ''x'')\<rparr>"

text \<open>
  A later run in the same world: only the clock differs, the random generator stands at
  another position and the log already holds the calls of an earlier audit.
\<close>

definition later_env :: env where
  "later_env = (example_env 0)\<lparr>utcnow := ''2024-06-30T12:00:00''\<rparr>"

definition later_state :: state where
  "later_state = \<lparr>rng_pos = 5, net_log = [TlsProbe ''example.org'', HttpGet ''https://example.org'']\<rparr>"


section \<open>Properties\<close>

subsection \<open>Score bounds\<close>

lemma security_score_le: "fst (security_score_issues resp ssl_ok) \<le> 100"
  by (simp add: security_score_issues_def Let_def split: option.split)

lemma security_bounded:
  "0 \<le> sec_score (fst (fst (analyze_security e resp ssl_ok s))) \<and>
   sec_score (fst (fst (analyze_security e resp ssl_ok s))) \<le> 100"
  using security_score_le [of resp ssl_ok]
  by (simp add: analyze_security_def random_random_def case_prod_beta)

lemma performance_bounded:
  "0 \<le> fst (snd (fst (analyze_performance e resp load_time s))) \<and>
   fst (snd (fst (analyze_performance e resp load_time s))) \<le> 100"
  by (simp add: analyze_performance_def split: option.split prod.split)

lemma analyze_seo_score:
  "fst (snd (fst (analyze_seo e html url s))) =
     (if truthy html
      then max 0 (min 100 (fst (snd (snd (snd (snd
             (seo_markup (html_parser e (case html of Some h \<Rightarrow> h | None \<Rightarrow> [])))))))))
      else 0)"
  by (simp add: analyze_seo_def Let_def case_prod_beta)

lemma seo_bounded:
  "0 \<le> fst (snd (fst (analyze_seo e html url s))) \<and>
   fst (snd (fst (analyze_seo e html url s))) \<le> 100"
  by (simp add: analyze_seo_score)

lemma num_clamp_bounds:
  "0 \<le> num_val (num_max (PyInt 0) (num_min (PyInt 100) x)) \<and>
   num_val (num_max (PyInt 0) (num_min (PyInt 100) x)) \<le> 100"
  by (simp add: num_max_def num_min_def)

lemma accessibility_bounded:
  "0 \<le> num_val (fst (analyze_accessibility e html url)) \<and>
   num_val (fst (analyze_accessibility e html url)) \<le> 100"
  using num_clamp_bounds by (simp add: analyze_accessibility_def split: prod.split)

text \<open>
  The clamp is needed: with an invalid certificate, no security header and a cookie
  without flags the deductions add up to 120, and the score returned is 0.
\<close>

lemma bare_response_security: "fst (security_score_issues (Some bare_response) False) = - 20"
  by code_simp

lemma security_clamps_negative:
  "sec_score (fst (fst (analyze_security e (Some bare_response) False s))) = 0"
  using bare_response_security
  by (simp add: analyze_security_def random_random_def case_prod_beta)

text \<open>
  C1. Whatever the response (or none), the TLS flag, the load time, the HTML (or none), the
  URL and the outside world are, each of the four analyzers returns a score between 0 and
  100, both included.
\<close>

theorem analyzer_scores_in_range:
  "(0 \<le> sec_score (fst (fst (analyze_security e resp ssl_ok s))) \<and>
    sec_score (fst (fst (analyze_security e resp ssl_ok s))) \<le> 100) \<and>
   (0 \<le> fst (snd (fst (analyze_performance e resp load_time s))) \<and>
    fst (snd (fst (analyze_performance e resp load_time s))) \<le> 100) \<and>
   (0 \<le> fst (snd (fst (analyze_seo e html url s))) \<and>
    fst (snd (fst (analyze_seo e html url s))) \<le> 100) \<and>
   (0 \<le> num_val (fst (analyze_accessibility e html url)) \<and>
    num_val (fst (analyze_accessibility e html url)) \<le> 100)"
  using security_bounded performance_bounded seo_bounded accessibility_bounded
  by blast

subsection \<open>Security\<close>

lemma no_missing_headers:
  "\<forall>h \<in> set SECURITY_HEADERS. in_headers h r \<Longrightarrow>
   filter (\<lambda>h. \<not> in_headers h r) SECURITY_HEADERS = []"
  by (simp add: filter_empty_conv)

lemma security_all_headers:
  assumes "\<forall>h \<in> set SECURITY_HEADERS. in_headers h r"
    and "\<not> ssl_ok"
    and "case headers_get r ''Set-Cookie'' of
           None \<Rightarrow> True
         | Some c \<Rightarrow> c = [] \<or> (py_in ''secure'' (lower c) \<and> py_in ''httponly'' (lower c))"
  shows "security_score_issues (Some r) ssl_ok = (60, [''Invalid SSL/TLS certificate.''])"
  using assms(2,3) no_missing_headers [OF assms(1)]
  by (auto simp add: security_score_issues_def Let_def truthy_def split: option.splits)

lemma example_response_headers: "\<forall>h \<in> set SECURITY_HEADERS. in_headers h example_response"
  by code_simp

lemma example_response_cookie: "headers_get example_response ''Set-Cookie'' = None"
  by code_simp

lemma cookie_response_security:
  "security_score_issues (Some cookie_response) False =
     (40, [''Invalid SSL/TLS certificate.'', ''Cookies missing Secure flag.'',
           ''Cookies missing HttpOnly flag.''])"
  by code_simp

lemma cookie_response_headers: "list_all (\<lambda>h. in_headers h cookie_response) SECURITY_HEADERS"
  by code_simp

text \<open>
  C3, as stated, fails: \<open>cookie_response\<close> was fetched, carries all six security headers
  and the TLS probe reported invalid, yet its cookie has neither flag, so the score is 40
  and there are three issues.
\<close>

theorem security_all_headers_counterexample:
  "list_all (\<lambda>h. in_headers h cookie_response) SECURITY_HEADERS \<and>
   sec_score (fst (fst (analyze_security (example_env 0) (Some cookie_response) False initial_state))) = 40 \<and>
   length (snd (fst (analyze_security (example_env 0) (Some cookie_response) False initial_state))) = 3"
  by (simp add: cookie_response_headers analyze_security_def cookie_response_security
        random_random_def)

text \<open>
  C3, amended. If the fetch succeeded, the TLS probe reported invalid, the response has all
  six security headers, and its \<open>Set-Cookie\<close> header is absent, empty, or contains both
  "secure" and "httponly" (in any letter case), then \<open>analyze_security\<close> returns score 60
  and the single issue "Invalid SSL/TLS certificate.".
\<close>

theorem security_tls_invalid_all_headers:
  assumes "\<forall>h \<in> set SECURITY_HEADERS. in_headers h r"
    and "\<not> ssl_ok"
    and "case headers_get r ''Set-Cookie'' of
           None \<Rightarrow> True
         | Some c \<Rightarrow> c = [] \<or> (py_in ''secure'' (lower c) \<and> py_in ''httponly'' (lower c))"
  shows "sec_score (fst (fst (analyze_security e (Some r) ssl_ok s))) = 60 \<and>
         snd (fst (analyze_security e (Some r) ssl_ok s)) = [''Invalid SSL/TLS certificate.'']"
  using security_all_headers [OF assms]
  by (simp add: analyze_security_def random_random_def)

theorem security_tls_invalid_all_headers_witness:
  "list_all (\<lambda>h. in_headers h example_response) SECURITY_HEADERS \<and>
   headers_get example_response ''Set-Cookie'' = None \<and>
   sec_score (fst (fst (analyze_security (example_env 0) (Some example_response) False initial_state))) = 60 \<and>
   snd (fst (analyze_security (example_env 0) (Some example_response) False initial_state)) =
     [''Invalid SSL/TLS certificate.'']"
proof -
  have c: "case headers_get example_response ''Set-Cookie'' of
             None \<Rightarrow> True
           | Some c \<Rightarrow> c = [] \<or> (py_in ''secure'' (lower c) \<and> py_in ''httponly'' (lower c))"
    by (simp add: example_response_cookie)
  have n: "\<not> False" by simp
  show ?thesis
    using security_tls_invalid_all_headers
            [OF example_response_headers n c, of "example_env 0" initial_state]
          example_response_headers example_response_cookie
    by (simp add: list_all_iff)
qed

lemma security_no_fetch:
  "security_score_issues None ssl_ok =
     (0, (if ssl_ok then [] else [''Invalid SSL/TLS certificate.''])
         @ [''Could not fetch page for security analysis.''])"
  by (simp add: security_score_issues_def)

text \<open>
  C4. Without a fetched response \<open>analyze_security\<close> returns score 0 whatever the TLS
  validity is, and the message "Could not fetch page for security analysis." occurs exactly
  once in its issue list (after the TLS issue, when the certificate is invalid).
\<close>

theorem analyze_security_unfetched:
  "sec_score (fst (fst (analyze_security e None ssl_ok s))) = 0 \<and>
   count_list (snd (fst (analyze_security e None ssl_ok s)))
     ''Could not fetch page for security analysis.'' = 1 \<and>
   snd (fst (analyze_security e None ssl_ok s)) =
     (if ssl_ok then [] else [''Invalid SSL/TLS certificate.''])
     @ [''Could not fetch page for security analysis.'']"
  by (simp add: analyze_security_def security_no_fetch random_random_def)

subsection \<open>SEO\<close>

lemma seo_markup_le: "fst (snd (snd (snd (snd (seo_markup soup))))) \<le> 70"
  by (simp add: seo_markup_def Let_def split: option.split)

lemma example_page_seo: "snd (snd (snd (snd (seo_markup example_page)))) = (70, [])"
  by code_simp

text \<open>
  C10. Whatever the HTML and the URL are, \<open>analyze_seo\<close> returns a score of at most 70:
  30 for the title, 30 for the meta description, 10 for a single \<open>h1\<close>; the Open Graph
  check only subtracts and the robots and sitemap probes leave the score alone. A page
  that passes every check scores 70.
\<close>

theorem seo_score_at_most_70:
  "fst (snd (fst (analyze_seo e html url s))) \<le> 70 \<and>
   fst (snd (fst (analyze_seo (example_env 0) (Some ''<html lang=en>'') url s))) = 70"
  using seo_markup_le [of "html_parser e (case html of Some h \<Rightarrow> h | None \<Rightarrow> [])"]
  by (simp add: analyze_seo_score example_env_def example_page_seo truthy_def)

subsection \<open>Rounding\<close>

lemma round_half_even_ge: "of_int n \<le> x \<Longrightarrow> n \<le> round_half_even x"
  unfolding round_half_even_def Let_def
  by (auto simp: le_floor_iff) (meson le_floor_iff order_trans add_increasing2 zero_le_one)+

lemma powi_pos: "0 < (2::rat) powi k"
  by (simp add: power_int_def)

lemma powi_mono: "a \<le> b \<Longrightarrow> (2::rat) powi a \<le> 2 powi b"
  by (rule power_int_increasing) simp_all

lemma powi_less_cancel: "(2::rat) powi a < 2 powi b \<Longrightarrow> a < b"
  using powi_mono [of b a] by (cases "b \<le> a") auto

lemma bitlen_powi_bounds:
  assumes "0 < p"
  shows "(2::rat) powi (bitlen p - 1) \<le> of_int p \<and> of_int p < (2::rat) powi (bitlen p)"
proof -
  have b: "1 \<le> bitlen p" using assms by (simp add: bitlen_alt_def)
  have "2 ^ nat (bitlen p - 1) \<le> p \<and> p < 2 ^ nat (bitlen p)"
    using bitlen_bounds [OF assms] .
  then have "(of_int (2 ^ nat (bitlen p - 1)) :: rat) \<le> of_int p \<and> (of_int p :: rat) < of_int (2 ^ nat (bitlen p))"
    by (simp only: of_int_le_iff of_int_less_iff)
  then show ?thesis using b by (simp add: power_int_def)
qed

lemma ilog2_bounds:
  assumes "0 < x"
  shows "2 powi (ilog2 x) \<le> x \<and> x < 2 powi (ilog2 x + 1)"
proof -
  obtain p q where pq: "quotient_of x = (p, q)" by (cases "quotient_of x")
  have q: "0 < q" using pq by (rule quotient_of_denom_pos)
  have x: "x = of_int p / of_int q" using pq by (rule quotient_of_div)
  have p: "0 < p" using assms q x by (simp add: zero_less_divide_iff)
  let ?d = "bitlen p - bitlen q"
  have qr: "(0::rat) < of_int q" using q by simp
  note P = bitlen_powi_bounds [OF p] and Q = bitlen_powi_bounds [OF q]
  have "of_int p < (2::rat) powi (bitlen p)" using P by simp
  also have "\<dots> = 2 powi (?d + 1) * 2 powi (bitlen q - 1)"
    by (simp add: power_int_add [symmetric])
  also have "\<dots> \<le> 2 powi (?d + 1) * of_int q"
    using Q powi_pos [of "?d + 1"] by (simp add: mult_left_mono)
  finally have up: "x < 2 powi (?d + 1)"
    using qr by (simp add: x pos_divide_less_eq)
  have "(2::rat) powi (?d - 1) * of_int q < 2 powi (?d - 1) * 2 powi (bitlen q)"
    using Q powi_pos [of "?d - 1"] by (simp add: mult_strict_left_mono)
  also have "\<dots> = 2 powi (bitlen p - 1)"
    by (simp add: power_int_add [symmetric])
  also have "\<dots> \<le> of_int p" using P by simp
  finally have lo: "2 powi (?d - 1) < x"
    using qr by (simp add: x pos_less_divide_eq)
  show ?thesis
  proof (cases "2 powi ?d \<le> x")
    case True
    then show ?thesis using up by (simp add: ilog2_def pq Let_def)
  next
    case False
    then show ?thesis using lo by (simp add: ilog2_def pq Let_def)
  qed
qed

lemma fl_nonneg: "0 \<le> x \<Longrightarrow> 0 \<le> fl x"
proof -
  assume x: "0 \<le> x"
  have "0 \<le> x / 2 powi (ilog2 \<bar>x\<bar> - 52)"
    using x powi_pos [of "ilog2 \<bar>x\<bar> - 52"] by simp
  then have "0 \<le> round_half_even (x / 2 powi (ilog2 \<bar>x\<bar> - 52))"
    using round_half_even_ge [of 0] by simp
  then show ?thesis
    using powi_pos [of "ilog2 \<bar>x\<bar> - 52"] by (simp add: fl_def Let_def)
qed

lemma fl_ge_pow2:
  assumes "2 ^ k \<le> x"
  shows "2 ^ k \<le> fl x"
proof -
  have x: "0 < x" using assms by (rule less_le_trans [rotated]) simp
  let ?e = "ilog2 x"
  let ?u = "(2::rat) powi (?e - 52)"
  let ?m = "round_half_even (x / ?u)"
  note B = ilog2_bounds [OF x]
  have u: "0 < ?u" by (rule powi_pos)
  have "(2::rat) powi (int k) \<le> x" using assms by simp
  also have "\<dots> < 2 powi (?e + 1)" using B by simp
  finally have ke: "int k \<le> ?e" using powi_less_cancel by fastforce
  have eq: "of_int (2 ^ 52) * ?u = (2::rat) powi ?e"
    using power_int_add [of "2::rat" 52 "?e - 52"] by simp
  then have "of_int (2 ^ 52) \<le> x / ?u"
    using B u by (simp add: pos_le_divide_eq)
  then have "2 ^ 52 \<le> ?m"
    by (rule round_half_even_ge)
  then have "(of_int (2 ^ 52) :: rat) \<le> of_int ?m"
    by (simp only: of_int_le_iff)
  then have "of_int (2 ^ 52) * ?u \<le> of_int ?m * ?u"
    using u by (intro mult_right_mono) simp_all
  then have "2 powi ?e \<le> of_int ?m * ?u"
    by (simp only: eq)
  moreover have "fl x = of_int ?m * ?u"
    using x by (simp add: fl_def Let_def)
  moreover have "(2::rat) ^ k \<le> 2 powi ?e"
    using powi_mono [OF ke] by simp
  ultimately show ?thesis by simp
qed


subsection \<open>Performance of a slow page\<close>

lemma fl_zero: "fl 0 = 0"
  by (simp add: fl_def)

lemma uniform_ge:
  assumes "2 ^ k \<le> a" and "0 \<le> fsub b a" and "0 \<le> rand e (rng_pos s)"
  shows "2 ^ k \<le> fst (random_uniform e a b s)"
proof -
  have "0 \<le> fsub b a * rand e (rng_pos s)" using assms(2,3) by simp
  then have "0 \<le> fmul (fsub b a) (rand e (rng_pos s))"
    unfolding fmul_def by (rule fl_nonneg)
  then have "2 ^ k \<le> a + fmul (fsub b a) (rand e (rng_pos s))"
    using assms(1) by simp
  then have "2 ^ k \<le> fadd a (fmul (fsub b a) (rand e (rng_pos s)))"
    unfolding fadd_def by (rule fl_ge_pow2)
  then show ?thesis by (simp add: random_uniform_def random_random_def)
qed

lemma uniform_state: "snd (random_uniform e a b s) = s\<lparr>rng_pos := rng_pos s + 1\<rparr>"
  by (simp add: random_uniform_def random_random_def)

lemma lcp_base: "2 ^ 2 \<le> fmul 7 (fl 0.8) \<and> 0 \<le> fsub (fmul 7 (fl 1.2)) (fmul 7 (fl 0.8)) \<and> fl 2.5 < 2 ^ 2"
  by code_simp

lemma fcp_base: "2 ^ 1 \<le> fmul 7 (fl 0.4) \<and> 0 \<le> fsub (fmul 7 (fl 0.8)) (fmul 7 (fl 0.4)) \<and> fl 1.8 < 2 ^ 1"
  by code_simp

lemma lcp_slow:
  assumes "0 \<le> rand e (rng_pos s)"
  shows "fl 2.5 < fst (random_uniform e (fmul 7 (fl 0.8)) (fmul 7 (fl 1.2)) s)"
  using uniform_ge [of 2 "fmul 7 (fl 0.8)" "fmul 7 (fl 1.2)" e s] lcp_base assms
  by linarith

lemma fcp_slow:
  assumes "0 \<le> rand e (rng_pos s)"
  shows "fl 1.8 < fst (random_uniform e (fmul 7 (fl 0.4)) (fmul 7 (fl 0.8)) s)"
  using uniform_ge [of 1 "fmul 7 (fl 0.4)" "fmul 7 (fl 0.8)" e s] fcp_base assms
  by linarith

lemma performance_measure_slow:
  assumes draws: "\<forall>n. 0 \<le> rand e n"
    and size: "py_round_nd (int_truediv (int (length (content r))) 1024) 2 \<le> 1024"
  shows "snd (snd (snd (snd (fst (performance_measure e r (Some 7) s))))) =
           (if fst (snd (snd (snd (fst (performance_measure e r (Some 7) s))))) > fl 0.1
            then (10, [''High Largest Contentful Paint (LCP) - Page rendering is slow.'',
                       ''High First Contentful Paint (FCP) - Initial content took time to display.'',
                       ''High Cumulative Layout Shift (CLS) - Page layout is unstable.'',
                       ''Very high load time '' @ float_str 7 @ ''s.''])
            else (20, [''High Largest Contentful Paint (LCP) - Page rendering is slow.'',
                       ''High First Contentful Paint (FCP) - Initial content took time to display.'',
                       ''Very high load time '' @ float_str 7 @ ''s.'']))"
proof -
  have l: "fl 2.5 < fst (random_uniform e (fmul 7 (fl 0.8)) (fmul 7 (fl 1.2)) s)"
    using draws by (intro lcp_slow) simp
  have f: "fl 1.8 < fst (random_uniform e (fmul 7 (fl 0.4)) (fmul 7 (fl 0.8))
                           (snd (random_uniform e (fmul 7 (fl 0.8)) (fmul 7 (fl 1.2)) s)))"
    using draws by (intro fcp_slow) simp
  show ?thesis
    using l f size
    by (simp add: performance_measure_def Let_def case_prod_beta)
qed


subsection \<open>The endpoint\<close>

lemma normalize_url_nonempty: "normalize_url u \<noteq> []"
  by (auto simp add: normalize_url_def Let_def startswith_def)

lemma normalize_url_empty: "normalize_url [] = ''https://''"
  by code_simp

lemma audit_never_400: "fst (audit e d s) \<noteq> Inl (400, ''URL required'')"
  by (simp add: audit_def Let_def normalize_url_nonempty case_prod_beta split: option.split)

lemma net_log_security: "net_log (snd (analyze_security e resp ok s)) = net_log s"
  by (simp add: analyze_security_def random_random_def case_prod_beta)

lemma performance_measure_state:
  "snd (performance_measure e r lt s) =
     s\<lparr>rng_pos := rng_pos s + (case lt of None \<Rightarrow> 1 | Some t \<Rightarrow> 3)\<rparr>"
  unfolding performance_measure_def Let_def case_prod_beta snd_conv
  by (cases lt) (simp_all add: uniform_state)

lemma analyze_performance_state:
  "snd (analyze_performance e resp lt s) =
     (case resp of None \<Rightarrow> s
      | Some r \<Rightarrow> s\<lparr>rng_pos := rng_pos s + (case lt of None \<Rightarrow> 1 | Some t \<Rightarrow> 3)\<rparr>)"
  by (simp add: analyze_performance_def case_prod_beta performance_measure_state split: option.split)

lemma net_log_performance: "net_log (snd (analyze_performance e resp lt s)) = net_log s"
  by (simp add: analyze_performance_state split: option.split)

lemma net_log_seo:
  "net_log (snd (analyze_seo e html url s)) =
     net_log s @ (if truthy html
                  then [HttpHead (normalize_url url @ ''/robots.txt''),
                        HttpHead (normalize_url url @ ''/sitemap.xml'')]
                  else [])"
  by (simp add: analyze_seo_def Let_def case_prod_beta log_call_def)

lemma audit_net_log:
  "net_log (snd (audit e d s)) =
     (let url = normalize_url (case d of None \<Rightarrow> [] | Some u \<Rightarrow> u)
      in net_log s @ [TlsProbe (hostname_from_url e url), HttpGet url] @
         (case http_get e url of
            None \<Rightarrow> []
          | Some (r, t) \<Rightarrow>
              if resp_text r \<noteq> []
              then [HttpHead (normalize_url url @ ''/robots.txt''),
                    HttpHead (normalize_url url @ ''/sitemap.xml'')]
              else []))"
  by (simp add: audit_def Let_def normalize_url_nonempty case_prod_beta check_ssl_valid_def
        fetch_page_def log_call_def net_log_seo net_log_performance net_log_security truthy_def
      split: option.split)


text \<open>
  C7. The claim is not what the code does: \<open>normalize_url\<close> turns the empty input into
  \<open>https://\<close> before the handler tests it, so the "URL required" rejection is never
  returned for any request, and for an empty or absent URL the handler goes on to probe
  TLS and to fetch \<open>https://\<close>.
\<close>

theorem audit_empty_url:
  "normalize_url [] = ''https://'' \<and>
   fst (audit e d s) \<noteq> Inl (400, ''URL required'') \<and>
   take 2 (drop (length (net_log s)) (net_log (snd (audit e (Some []) s)))) =
     [TlsProbe (hostname_from_url e ''https://''), HttpGet ''https://''] \<and>
   take 2 (drop (length (net_log s)) (net_log (snd (audit e None s)))) =
     [TlsProbe (hostname_from_url e ''https://''), HttpGet ''https://'']"
  by (simp add: audit_never_400 audit_net_log normalize_url_empty Let_def)

lemma letter_grade_ranges:
  "(letter_grade x = ''A+'') = (90 \<le> x) \<and>
   (letter_grade x = ''A'') = (80 \<le> x \<and> x < 90) \<and>
   (letter_grade x = ''B'') = (70 \<le> x \<and> x < 80) \<and>
   (letter_grade x = ''C'') = (60 \<le> x \<and> x < 70) \<and>
   (letter_grade x = ''D'') = (50 \<le> x \<and> x < 60) \<and>
   (letter_grade x = ''F'') = (x < 50)"
  by (simp add: letter_grade_def)

lemma audit_report:
  assumes "fst (audit e d s) = Inr rep"
  shows "overall_score rep =
           overall_of (sec_score (security rep)) (performance_score rep) (seo_score rep)
             (accessibility_score rep)"
    and "overall_grade rep = letter_grade (overall_score rep)"
    and "critical rep =
           int (length (filter is_critical
             (security_issues rep @ performance_issues rep @ seo_issues rep @ accessibility_issues rep)))"
    and "minor rep =
           int (length (security_issues rep @ performance_issues rep @ seo_issues rep
                        @ accessibility_issues rep)) - critical rep"
  using assms
  by (auto simp add: audit_def Let_def case_prod_beta split: if_splits option.splits)

lemma startswith_prefix: "startswith s p = prefix p s"
proof
  assume "startswith s p"
  then have "s = p @ drop (length p) s"
    by (metis startswith_def append_take_drop_id)
  then show "prefix p s" by (metis prefixI)
next
  assume "prefix p s"
  then show "startswith s p" by (auto simp add: startswith_def prefix_def)
qed

lemma py_in_sublist: "py_in sub s = sublist sub s"
  by (induction s) (simp_all add: sublist_Cons_right startswith_prefix)

lemma audit_fetched:
  fixes e d s r t
  defines "url \<equiv> normalize_url (case d of None \<Rightarrow> [] | Some u \<Rightarrow> u)"
  defines "host \<equiv> hostname_from_url e url"
  defines "ok \<equiv> (tls_handshake e host = None)"
  defines "sec \<equiv> analyze_security e (Some r) ok (log_call (HttpGet url) (log_call (TlsProbe host) s))"
  defines "perf \<equiv> analyze_performance e (Some r) (Some (py_round_nd t 2)) (snd sec)"
  defines "seo_r \<equiv> analyze_seo e (Some (resp_text r)) url (snd perf)"
  defines "acc \<equiv> analyze_accessibility e (Some (resp_text r)) url"
  defines "issues \<equiv> snd (fst sec) @ snd (snd (fst perf)) @ snd (snd (fst seo_r)) @ snd acc"
  defines "overall \<equiv> overall_of (sec_score (fst (fst sec))) (fst (snd (fst perf))) (fst (snd (fst seo_r))) (fst acc)"
  assumes "http_get e url = Some (r, t)"
  shows "fst (audit e d s) =
           Inr \<lparr>timestamp = utcnow e,
                report_url = url,
                report_status = ''success'',
                overall_score = overall,
                overall_grade = letter_grade overall,
                security = fst (fst sec),
                ssl_error = (case tls_handshake e host of None \<Rightarrow> ''Valid'' | Some err \<Rightarrow> err),
                security_issues = snd (fst sec),
                performance = fst (fst perf),
                performance_score = fst (snd (fst perf)),
                performance_issues = snd (snd (fst perf)),
                seo = fst (fst seo_r),
                seo_score = fst (snd (fst seo_r)),
                seo_issues = snd (snd (fst seo_r)),
                accessibility_score = fst acc,
                accessibility_issues = snd acc,
                critical = int (length (filter is_critical issues)),
                minor = int (length issues) - int (length (filter is_critical issues))\<rparr>"
  using assms(10) unfolding assms(1-9)
  by (simp add: audit_def Let_def case_prod_beta normalize_url_nonempty check_ssl_valid_def
        fetch_page_def split: option.split)

subsection \<open>Accessibility\<close>

text \<open>
  C9. The claim is not what the code does: with one image of four lacking \<open>alt\<close> the
  deduction is \<open>(1 / 4) * 30 = 7.5\<close> and the returned score is the float 92.5, which is
  no integer.
\<close>

theorem accessibility_fractional_score:
  "analyze_accessibility gallery_env (Some ''<html lang=en>'') ''https://example.com'' =
     (PyFloat (185 / 2), [''1 images missing alt attributes.'']) \<and>
   rat_of_int \<lfloor>185 / 2 :: rat\<rfloor> \<noteq> 185 / 2"
  by code_simp

subsection \<open>Performance at a load time of 7 seconds\<close>

lemma size_500: "py_round_nd (int_truediv 512000 1024) 2 = 500"
  by code_simp

lemma slow_response_size: "py_round_nd (int_truediv (int (length (content slow_response))) 1024) 2 = 500"
  by (simp add: slow_response_def size_500)

lemma performance_measure_lcp:
  "fst (snd (fst (performance_measure e r (Some t) s))) =
     PyFloat (fst (random_uniform e (fmul t (fl 0.8)) (fmul t (fl 1.2)) s))"
  unfolding performance_measure_def Let_def case_prod_beta fst_conv snd_conv
  by simp

lemma performance_measure_fcp:
  "fst (snd (snd (fst (performance_measure e r (Some t) s)))) =
     PyFloat (fst (random_uniform e (fmul t (fl 0.4)) (fmul t (fl 0.8)) (s\<lparr>rng_pos := rng_pos s + 1\<rparr>)))"
  unfolding performance_measure_def Let_def case_prod_beta fst_conv snd_conv
  by (simp add: uniform_state)

lemma performance_measure_cls:
  "fst (snd (snd (snd (fst (performance_measure e r (Some t) s))))) =
     fst (random_uniform e (fl 0.0) (fl 0.25) (s\<lparr>rng_pos := rng_pos s + 2\<rparr>))"
  unfolding performance_measure_def Let_def case_prod_beta fst_conv snd_conv
  by (simp add: uniform_state)

lemma analyze_performance_result:
  "snd (fst (analyze_performance e (Some r) lt s)) =
     (max 0 (min 100 (fst (snd (snd (snd (snd (fst (performance_measure e r lt s)))))))),
      snd (snd (snd (snd (snd (fst (performance_measure e r lt s)))))))"
  by (simp add: analyze_performance_def case_prod_beta)

lemma example_draw: "rand (example_env u) n = u"
  by (simp add: example_env_def)

lemma float_str_seven: "float_str 7 = ''7.0''"
  by code_simp

lemma cls_of_zero: "\<not> fl 0.1 < fadd (fl 0.0) (fmul (fsub (fl 0.25) (fl 0.0)) 0)"
  by code_simp

lemma cls_of_half: "fl 0.1 < fadd (fl 0.0) (fmul (fsub (fl 0.25) (fl 0.0)) (1/2))"
  by code_simp

text \<open>
  With the generator of the library, whose draws lie in \<open>[0, 1)\<close>, the metrics at a load
  time of 7 seconds are never within the healthy bounds: LCP is at least \<open>7.0 * 0.8\<close> and
  FCP at least \<open>7.0 * 0.4\<close>, so with a body of 500 KB the score is 20 when the drawn CLS is
  at most 0.1 and 10 otherwise.
\<close>

lemma performance_seven_seconds_drawn:
  assumes "\<forall>n. 0 \<le> rand e n \<and> rand e n < 1"
    and "int (length (content r)) = 500 * 1024"
  shows "fl 2.5 < num_val (fst (snd (fst (performance_measure e r (Some 7) s)))) \<and>
         fl 1.8 < num_val (fst (snd (snd (fst (performance_measure e r (Some 7) s))))) \<and>
         snd (fst (analyze_performance e (Some r) (Some 7) s)) =
           (if fl 0.1 < fst (snd (snd (snd (fst (performance_measure e r (Some 7) s)))))
            then (10, [''High Largest Contentful Paint (LCP) - Page rendering is slow.'',
                       ''High First Contentful Paint (FCP) - Initial content took time to display.'',
                       ''High Cumulative Layout Shift (CLS) - Page layout is unstable.'',
                       ''Very high load time 7.0s.''])
            else (20, [''High Largest Contentful Paint (LCP) - Page rendering is slow.'',
                       ''High First Contentful Paint (FCP) - Initial content took time to display.'',
                       ''Very high load time 7.0s.'']))"
proof -
  have d: "\<forall>n. 0 \<le> rand e n" using assms(1) by simp
  have z: "py_round_nd (int_truediv (int (length (content r))) 1024) 2 \<le> 1024"
    using assms(2) by (simp add: size_500)
  have l: "fl 2.5 < num_val (fst (snd (fst (performance_measure e r (Some 7) s))))"
    using lcp_slow [of e s] d by (simp add: performance_measure_lcp)
  have f: "fl 1.8 < num_val (fst (snd (snd (fst (performance_measure e r (Some 7) s)))))"
    using fcp_slow [of e "s\<lparr>rng_pos := rng_pos s + 1\<rparr>"] d by (simp add: performance_measure_fcp)
  show ?thesis
    using l f performance_measure_slow [OF d z, of s]
    by (simp add: analyze_performance_result float_str_seven)
qed






subsection \<open>The audit of the example world\<close>

lemma example_fetch: "http_get (example_env u) url = Some (example_response, 7)"
  "tls_handshake (example_env u) h = Some ''certificate verify failed''"
  "utcnow (example_env u) = ''2024-01-01T00:00:00''"
  by (simp_all add: example_env_def)

lemma round_seven: "py_round_nd 7 2 = 7"
  by code_simp

lemma example_security:
  "sec_score (fst (fst (analyze_security (example_env u) (Some example_response) False s))) = 60 \<and>
   phishing_risk (fst (fst (analyze_security (example_env u) (Some example_response) False s))) =
     (if fl 0.1 < u then ''LOW RISK'' else ''HIGH RISK'') \<and>
   snd (fst (analyze_security (example_env u) (Some example_response) False s)) =
     [''Invalid SSL/TLS certificate.'']"
proof -
  have "security_score_issues (Some example_response) False = (60, [''Invalid SSL/TLS certificate.''])"
    by (rule security_all_headers [OF example_response_headers]) (simp_all add: example_response_cookie)
  then show ?thesis
    by (simp add: analyze_security_def random_random_def example_draw)
qed

lemma security_state: "rng_pos (snd (analyze_security e resp ok s)) = rng_pos s + 1"
  by (simp add: analyze_security_def random_random_def case_prod_beta)

lemma example_size: "py_round_nd (int_truediv (int (length (content example_response))) 1024) 2 \<le> 1024"
  by code_simp

lemma example_performance:
  assumes "0 \<le> u"
  shows "snd (fst (analyze_performance (example_env u) (Some example_response) (Some 7) s)) =
           (if fl 0.1 < fadd (fl 0.0) (fmul (fsub (fl 0.25) (fl 0.0)) u)
            then (10, [''High Largest Contentful Paint (LCP) - Page rendering is slow.'',
                       ''High First Contentful Paint (FCP) - Initial content took time to display.'',
                       ''High Cumulative Layout Shift (CLS) - Page layout is unstable.'',
                       ''Very high load time 7.0s.''])
            else (20, [''High Largest Contentful Paint (LCP) - Page rendering is slow.'',
                       ''High First Contentful Paint (FCP) - Initial content took time to display.'',
                       ''Very high load time 7.0s.'']))"
proof -
  have d: "\<forall>n. 0 \<le> rand (example_env u) n" using assms by (simp add: example_draw)
  have c: "fst (snd (snd (snd (fst (performance_measure (example_env u) example_response (Some 7) s))))) =
             fadd (fl 0.0) (fmul (fsub (fl 0.25) (fl 0.0)) u)"
    by (simp add: performance_measure_cls random_uniform_def random_random_def example_draw)
  show ?thesis
    using performance_measure_slow [OF d example_size, of s]
    by (simp add: analyze_performance_result c float_str_seven)
qed

lemma example_seo:
  "h \<noteq> [] \<Longrightarrow> snd (fst (analyze_seo (example_env u) (Some h) url s)) = (70, [])"
  by (simp add: analyze_seo_def Let_def case_prod_beta example_env_def example_page_seo truthy_def)

lemma example_page_accessibility: "accessibility_markup example_page = (PyInt 100, [])"
  by code_simp

lemma example_accessibility:
  "h \<noteq> [] \<Longrightarrow> analyze_accessibility (example_env u) (Some h) url = (PyInt 100, [])"
  by (simp add: analyze_accessibility_def example_env_def example_page_accessibility truthy_def
        num_max_def num_min_def)

lemma example_text: "resp_text example_response \<noteq> []"
  by (simp add: example_response_def)

lemma example_audit:
  assumes "0 \<le> u"
  shows "\<exists>rep. fst (audit (example_env u) d s) = Inr rep \<and>
           sec_score (security rep) = 60 \<and>
           phishing_risk (security rep) = (if fl 0.1 < u then ''LOW RISK'' else ''HIGH RISK'') \<and>
           security_issues rep = [''Invalid SSL/TLS certificate.''] \<and>
           (performance_score rep, performance_issues rep) =
             (if fl 0.1 < fadd (fl 0.0) (fmul (fsub (fl 0.25) (fl 0.0)) u)
              then (10, [''High Largest Contentful Paint (LCP) - Page rendering is slow.'',
                         ''High First Contentful Paint (FCP) - Initial content took time to display.'',
                         ''High Cumulative Layout Shift (CLS) - Page layout is unstable.'',
                         ''Very high load time 7.0s.''])
              else (20, [''High Largest Contentful Paint (LCP) - Page rendering is slow.'',
                         ''High First Contentful Paint (FCP) - Initial content took time to display.'',
                         ''Very high load time 7.0s.''])) \<and>
           seo_score rep = 70 \<and> seo_issues rep = [] \<and>
           accessibility_score rep = PyInt 100 \<and> accessibility_issues rep = []"
  using example_security [of u] example_seo [OF example_text, of u] example_text
        example_accessibility [OF example_text, of u] example_performance [OF assms]
  by (simp add: audit_fetched [OF example_fetch(1)] example_fetch round_seven prod_eq_iff)

subsection \<open>Overall score, grade and issue counts\<close>

text \<open>
  The weighted sum is a float computation. For the component scores 60, 55, 70 and 85.0 it
  is exactly 63.5 and rounds to the even 64; for 0, 9, 10 and 3 the float sum lies just
  below the real value 5.5 and rounds to 5.
\<close>

lemma overall_of_examples:
  "overall_of 60 55 70 (PyFloat 85) = 64 \<and> overall_of 0 9 10 (PyInt 3) = 5"
  by code_simp

lemma example_overall:
  "py_round
     (fadd (fadd (fadd (fmul (float_of_int 60) (fl 0.35)) (fmul (float_of_int 20) (fl 0.30)))
                 (fmul (float_of_int 70) (fl 0.25)))
           (fmul (to_float (PyInt 100)) (fl 0.10))) = 54"
  by code_simp

lemma example_critical:
  "filter (\<lambda>i. sublist ''Missing'' i \<or> sublist ''Invalid'' i \<or> sublist ''High'' i)
     [''Invalid SSL/TLS certificate.'',
      ''High Largest Contentful Paint (LCP) - Page rendering is slow.'',
      ''High First Contentful Paint (FCP) - Initial content took time to display.'',
      ''Very high load time 7.0s.''] =
     [''Invalid SSL/TLS certificate.'',
      ''High Largest Contentful Paint (LCP) - Page rendering is slow.'',
      ''High First Contentful Paint (FCP) - Initial content took time to display.'']"
  unfolding py_in_sublist [symmetric] by code_simp

text \<open>
  C2. In every report the overall score is \<open>round(security * 0.35 + performance * 0.30 +
  seo * 0.25 + accessibility * 0.10)\<close> of the four component scores of that report, the
  products and sums being float operations taken left to right and \<open>round\<close> rounding
  half to even; and the grade is A+ from 90, A from 80, B from 70, C from 60, D from 50 and
  F below.
\<close>

theorem overall_score_and_grade:
  assumes "fst (audit e d s) = Inr rep"
  shows "overall_score rep =
           py_round
             (fadd (fadd (fadd (fmul (float_of_int (sec_score (security rep))) (fl 0.35))
                               (fmul (float_of_int (performance_score rep)) (fl 0.30)))
                         (fmul (float_of_int (seo_score rep)) (fl 0.25)))
                   (fmul (to_float (accessibility_score rep)) (fl 0.10))) \<and>
         (overall_grade rep = ''A+'') = (90 \<le> overall_score rep) \<and>
         (overall_grade rep = ''A'') = (80 \<le> overall_score rep \<and> overall_score rep < 90) \<and>
         (overall_grade rep = ''B'') = (70 \<le> overall_score rep \<and> overall_score rep < 80) \<and>
         (overall_grade rep = ''C'') = (60 \<le> overall_score rep \<and> overall_score rep < 70) \<and>
         (overall_grade rep = ''D'') = (50 \<le> overall_score rep \<and> overall_score rep < 60) \<and>
         (overall_grade rep = ''F'') = (overall_score rep < 50)"
  using audit_report(1,2) [OF assms] letter_grade_ranges [of "overall_score rep"]
  by (simp add: overall_of_def)

theorem overall_score_and_grade_witness:
  "\<exists>rep. fst (audit (example_env 0) (Some ''example.com'') initial_state) = Inr rep \<and>
         sec_score (security rep) = 60 \<and> performance_score rep = 20 \<and> seo_score rep = 70 \<and>
         accessibility_score rep = PyInt 100 \<and>
         overall_score rep = 54 \<and> overall_grade rep = ''D''"
proof -
  obtain rep where a: "fst (audit (example_env 0) (Some ''example.com'') initial_state) = Inr rep"
    and f: "sec_score (security rep) = 60" "seo_score rep = 70" "accessibility_score rep = PyInt 100"
    and p: "(performance_score rep, performance_issues rep) =
              (if fl 0.1 < fadd (fl 0.0) (fmul (fsub (fl 0.25) (fl 0.0)) 0)
               then (10, [''High Largest Contentful Paint (LCP) - Page rendering is slow.'',
                          ''High First Contentful Paint (FCP) - Initial content took time to display.'',
                          ''High Cumulative Layout Shift (CLS) - Page layout is unstable.'',
                          ''Very high load time 7.0s.''])
               else (20, [''High Largest Contentful Paint (LCP) - Page rendering is slow.'',
                          ''High First Contentful Paint (FCP) - Initial content took time to display.'',
                          ''Very high load time 7.0s.'']))"
    using example_audit [of 0 "Some ''example.com''" initial_state] by auto
  have q: "performance_score rep = 20" using p cls_of_zero by (simp split: if_splits)
  have o: "overall_score rep = 54"
    using overall_score_and_grade [OF a] example_overall by (simp only: f q)
  then have "overall_grade rep = ''D''"
    using overall_score_and_grade [OF a] by simp
  then show ?thesis using a f q o by blast
qed

text \<open>
  C6. In every report the critical count is the number of issues, over the four issue
  lists in order, that contain "Missing", "Invalid" or "High" as a contiguous,
  case-sensitive run of characters, and the minor count is the number of all issues minus
  the critical count.
\<close>

theorem issue_counts:
  assumes "fst (audit e d s) = Inr rep"
  shows "critical rep =
           int (length (filter (\<lambda>i. sublist ''Missing'' i \<or> sublist ''Invalid'' i \<or> sublist ''High'' i)
             (security_issues rep @ performance_issues rep @ seo_issues rep @ accessibility_issues rep))) \<and>
         minor rep =
           int (length (security_issues rep @ performance_issues rep @ seo_issues rep
                        @ accessibility_issues rep)) - critical rep"
  using audit_report(3,4) [OF assms]
  by (simp add: is_critical_def [abs_def] py_in_sublist)

theorem issue_counts_witness:
  "\<exists>rep. fst (audit (example_env 0) (Some ''example.com'') initial_state) = Inr rep \<and>
         security_issues rep @ performance_issues rep @ seo_issues rep @ accessibility_issues rep =
           [''Invalid SSL/TLS certificate.'',
            ''High Largest Contentful Paint (LCP) - Page rendering is slow.'',
            ''High First Contentful Paint (FCP) - Initial content took time to display.'',
            ''Very high load time 7.0s.''] \<and>
         critical rep = 3 \<and> minor rep = 1"
proof -
  obtain rep where a: "fst (audit (example_env 0) (Some ''example.com'') initial_state) = Inr rep"
    and f: "security_issues rep = [''Invalid SSL/TLS certificate.'']" "seo_issues rep = []"
           "accessibility_issues rep = []"
    and p: "(performance_score rep, performance_issues rep) =
              (if fl 0.1 < fadd (fl 0.0) (fmul (fsub (fl 0.25) (fl 0.0)) 0)
               then (10, [''High Largest Contentful Paint (LCP) - Page rendering is slow.'',
                          ''High First Contentful Paint (FCP) - Initial content took time to display.'',
                          ''High Cumulative Layout Shift (CLS) - Page layout is unstable.'',
                          ''Very high load time 7.0s.''])
               else (20, [''High Largest Contentful Paint (LCP) - Page rendering is slow.'',
                          ''High First Contentful Paint (FCP) - Initial content took time to display.'',
                          ''Very high load time 7.0s.'']))"
    using example_audit [of 0 "Some ''example.com''" initial_state] by auto
  have q: "performance_issues rep =
             [''High Largest Contentful Paint (LCP) - Page rendering is slow.'',
              ''High First Contentful Paint (FCP) - Initial content took time to display.'',
              ''Very high load time 7.0s.'']"
    using p cls_of_zero by (simp split: if_splits)
  have i: "security_issues rep @ performance_issues rep @ seo_issues rep @ accessibility_issues rep =
           [''Invalid SSL/TLS certificate.'',
            ''High Largest Contentful Paint (LCP) - Page rendering is slow.'',
            ''High First Contentful Paint (FCP) - Initial content took time to display.'',
            ''Very high load time 7.0s.'']"
    by (simp add: f q)
  have "critical rep = 3 \<and> minor rep = 1"
    using issue_counts [OF a] unfolding i example_critical by simp
  then show ?thesis using a i by blast
qed

subsection \<open>What a report depends on\<close>

lemma security_draws:
  assumes "rand e2 (rng_pos s2) = rand e1 (rng_pos s1)"
  shows "fst (analyze_security e2 resp ok s2) = fst (analyze_security e1 resp ok s1)"
  using assms by (simp add: analyze_security_def random_random_def case_prod_beta)

lemma uniform_draws:
  assumes "rand e2 (rng_pos s2) = rand e1 (rng_pos s1)"
  shows "fst (random_uniform e2 a b s2) = fst (random_uniform e1 a b s1)"
  using assms by (simp add: random_uniform_def random_random_def)

lemma performance_measure_draws:
  assumes "rand e2 (rng_pos s2) = rand e1 (rng_pos s1)"
    and "rand e2 (rng_pos s2 + 1) = rand e1 (rng_pos s1 + 1)"
    and "rand e2 (rng_pos s2 + 2) = rand e1 (rng_pos s1 + 2)"
  shows "fst (performance_measure e2 r lt s2) = fst (performance_measure e1 r lt s1)"
proof (cases lt)
  case None
  have c: "fst (random_uniform e2 (fl 0.0) (fl 0.25) s2) = fst (random_uniform e1 (fl 0.0) (fl 0.25) s1)"
    using assms(1) by (rule uniform_draws)
  show ?thesis
    unfolding performance_measure_def Let_def case_prod_beta fst_conv snd_conv None option.case
      c ..
next
  case (Some t)
  have l: "fst (random_uniform e2 (fmul t (fl 0.8)) (fmul t (fl 1.2)) s2) =
           fst (random_uniform e1 (fmul t (fl 0.8)) (fmul t (fl 1.2)) s1)"
    using assms(1) by (rule uniform_draws)
  have f: "fst (random_uniform e2 (fmul t (fl 0.4)) (fmul t (fl 0.8))
                  (snd (random_uniform e2 (fmul t (fl 0.8)) (fmul t (fl 1.2)) s2))) =
           fst (random_uniform e1 (fmul t (fl 0.4)) (fmul t (fl 0.8))
                  (snd (random_uniform e1 (fmul t (fl 0.8)) (fmul t (fl 1.2)) s1)))"
    using assms(2) by (intro uniform_draws) (simp add: uniform_state)
  have c: "fst (random_uniform e2 (fl 0.0) (fl 0.25)
                  (snd (random_uniform e2 (fmul t (fl 0.4)) (fmul t (fl 0.8))
                     (snd (random_uniform e2 (fmul t (fl 0.8)) (fmul t (fl 1.2)) s2))))) =
           fst (random_uniform e1 (fl 0.0) (fl 0.25)
                  (snd (random_uniform e1 (fmul t (fl 0.4)) (fmul t (fl 0.8))
                     (snd (random_uniform e1 (fmul t (fl 0.8)) (fmul t (fl 1.2)) s1)))))"
    using assms(3) by (intro uniform_draws) (simp add: uniform_state)
  show ?thesis
    unfolding performance_measure_def Let_def case_prod_beta fst_conv snd_conv Some option.case
      l f c ..
qed

lemma performance_draws:
  assumes "rand e2 (rng_pos s2) = rand e1 (rng_pos s1)"
    and "rand e2 (rng_pos s2 + 1) = rand e1 (rng_pos s1 + 1)"
    and "rand e2 (rng_pos s2 + 2) = rand e1 (rng_pos s1 + 2)"
  shows "fst (analyze_performance e2 resp lt s2) = fst (analyze_performance e1 resp lt s1)"
  using performance_measure_draws [OF assms]
  by (simp add: analyze_performance_def case_prod_beta split: option.split)

lemma seo_world:
  assumes "http_head e2 = http_head e1" and "html_parser e2 = html_parser e1"
  shows "fst (analyze_seo e2 html url s2) = fst (analyze_seo e1 html url s1)"
  using assms by (simp add: analyze_seo_def Let_def case_prod_beta)

lemma accessibility_world:
  assumes "html_parser e2 = html_parser e1"
  shows "analyze_accessibility e2 html url = analyze_accessibility e1 html url"
  using assms by (simp add: analyze_accessibility_def)

lemma audit_unfetched:
  assumes "http_get e (normalize_url (case d of None \<Rightarrow> [] | Some u \<Rightarrow> u)) = None"
  shows "fst (audit e d s) = Inl (500, ''Failed to fetch page.'')"
  using assms
  by (simp add: audit_def Let_def case_prod_beta normalize_url_nonempty fetch_page_def)

lemma log_call_pos: "rng_pos (log_call c s) = rng_pos s"
  by (simp add: log_call_def)

text \<open>
  C8, as stated, fails. Two runs on the same captured response, load time, TLS result and
  probe results, whose random draws are all 0 in one and all 1/2 in the other, differ in
  more than the timestamp: the phishing risk is HIGH RISK against LOW RISK and the
  performance score 20 against 10.
\<close>

theorem audit_random_counterexample:
  "case_sum (\<lambda>err. []) (\<lambda>rep. phishing_risk (security rep))
     (fst (audit (example_env 0) (Some ''example.com'') initial_state)) = ''HIGH RISK'' \<and>
   case_sum (\<lambda>err. []) (\<lambda>rep. phishing_risk (security rep))
     (fst (audit (example_env (1 / 2)) (Some ''example.com'') initial_state)) = ''LOW RISK'' \<and>
   case_sum (\<lambda>err. 0) performance_score
     (fst (audit (example_env 0) (Some ''example.com'') initial_state)) = 20 \<and>
   case_sum (\<lambda>err. 0) performance_score
     (fst (audit (example_env (1 / 2)) (Some ''example.com'') initial_state)) = 10 \<and>
   map_sum id (timestamp_update (\<lambda>t. []))
     (fst (audit (example_env 0) (Some ''example.com'') initial_state)) \<noteq>
   map_sum id (timestamp_update (\<lambda>t. []))
     (fst (audit (example_env (1 / 2)) (Some ''example.com'') initial_state))"
proof -
  have h: "\<not> fl 0.1 < 0" "fl 0.1 < 1 / 2" by code_simp+
  obtain a where a: "fst (audit (example_env 0) (Some ''example.com'') initial_state) = Inr a"
    "phishing_risk (security a) = ''HIGH RISK''" "performance_score a = 20"
    using example_audit [of 0 "Some ''example.com''" initial_state] h(1) cls_of_zero
    by (auto simp add: prod_eq_iff)
  obtain b where b: "fst (audit (example_env (1 / 2)) (Some ''example.com'') initial_state) = Inr b"
    "phishing_risk (security b) = ''LOW RISK''" "performance_score b = 10"
    using example_audit [of "1 / 2" "Some ''example.com''" initial_state] h(2) cls_of_half
    by (auto simp add: prod_eq_iff)
  have "performance_score (a\<lparr>timestamp := []\<rparr>) \<noteq> performance_score (b\<lparr>timestamp := []\<rparr>)"
    using a(3) b(3) by simp
  then have "a\<lparr>timestamp := []\<rparr> \<noteq> b\<lparr>timestamp := []\<rparr>" by metis
  then show ?thesis using a b by simp
qed

text \<open>
  C8, amended. Two runs that see the same TLS result, the same fetched response and load
  time, the same results of the robots.txt and sitemap.xml probes, and the same four
  random draws (library functions being the same) produce reports that are identical
  except for the timestamp field.
\<close>

theorem audit_deterministic:
  assumes "tls_handshake e2 = tls_handshake e1" and "http_get e2 = http_get e1"
    and "http_head e2 = http_head e1" and "netloc e2 = netloc e1"
    and "html_parser e2 = html_parser e1"
    and "\<forall>k<4. rand e2 (rng_pos s2 + k) = rand e1 (rng_pos s1 + k)"
  shows "map_sum id (timestamp_update (\<lambda>t. [])) (fst (audit e2 d s2)) =
         map_sum id (timestamp_update (\<lambda>t. [])) (fst (audit e1 d s1))"
proof -
  let ?url = "normalize_url (case d of None \<Rightarrow> [] | Some u \<Rightarrow> u)"
  have host: "hostname_from_url e2 ?url = hostname_from_url e1 ?url"
    by (simp add: hostname_from_url_def assms(4))
  have r: "rand e2 (rng_pos s2) = rand e1 (rng_pos s1)"
    "rand e2 (Suc (rng_pos s2)) = rand e1 (Suc (rng_pos s1))"
    "rand e2 (Suc (Suc (rng_pos s2))) = rand e1 (Suc (Suc (rng_pos s1)))"
    "rand e2 (Suc (Suc (Suc (rng_pos s2)))) = rand e1 (Suc (Suc (Suc (rng_pos s1))))"
    using assms(6) [rule_format, of 0] assms(6) [rule_format, of 1]
      assms(6) [rule_format, of 2] assms(6) [rule_format, of 3]
    by (simp_all add: numeral_3_eq_3)
  show ?thesis
  proof (cases "http_get e1 ?url")
    case None
    then show ?thesis
      using audit_unfetched [of e1 d s1] audit_unfetched [of e2 d s2] by (simp add: assms(2))
  next
    case (Some p)
    obtain resp t where p: "p = (resp, t)" by (cases p)
    have g1: "http_get e1 ?url = Some (resp, t)" using Some p by simp
    have g2: "http_get e2 ?url = Some (resp, t)" using g1 by (simp add: assms(2))
    let ?ok = "tls_handshake e1 (hostname_from_url e1 ?url) = None"
    let ?t1 = "log_call (HttpGet ?url) (log_call (TlsProbe (hostname_from_url e1 ?url)) s1)"
    let ?t2 = "log_call (HttpGet ?url) (log_call (TlsProbe (hostname_from_url e1 ?url)) s2)"
    have sec: "fst (analyze_security e2 (Some resp) ?ok ?t2) = fst (analyze_security e1 (Some resp) ?ok ?t1)"
      by (rule security_draws) (simp add: log_call_pos r)
    have perf: "fst (analyze_performance e2 (Some resp) (Some (py_round_nd t 2))
                       (snd (analyze_security e2 (Some resp) ?ok ?t2))) =
                fst (analyze_performance e1 (Some resp) (Some (py_round_nd t 2))
                       (snd (analyze_security e1 (Some resp) ?ok ?t1)))"
      by (rule performance_draws) (simp_all add: security_state log_call_pos r)
    have seo_eq: "\<And>u1 u2. fst (analyze_seo e2 (Some (resp_text resp)) ?url u2) =
                        fst (analyze_seo e1 (Some (resp_text resp)) ?url u1)"
      by (rule seo_world) (simp_all add: assms(3,5))
    have acc: "analyze_accessibility e2 (Some (resp_text resp)) ?url =
               analyze_accessibility e1 (Some (resp_text resp)) ?url"
      by (rule accessibility_world) (simp add: assms(5))
    show ?thesis
      unfolding audit_fetched [OF g1] audit_fetched [OF g2] host assms(1) sec perf acc
        seo_eq [of _ "snd (analyze_performance e1 (Some resp) (Some (py_round_nd t 2))
                            (snd (analyze_security e1 (Some resp) ?ok ?t1)))"]
      by simp
  qed
qed

lemma audit_timestamp:
  assumes "fst (audit e d s) = Inr rep"
  shows "timestamp rep = utcnow e"
  using assms
  by (auto simp add: audit_def Let_def case_prod_beta split: if_splits option.splits)

lemma later_env_fields:
  "tls_handshake later_env = tls_handshake (example_env 0)"
  "http_get later_env = http_get (example_env 0)"
  "http_head later_env = http_head (example_env 0)"
  "netloc later_env = netloc (example_env 0)"
  "html_parser later_env = html_parser (example_env 0)"
  "rand later_env = rand (example_env 0)"
  "utcnow later_env = ''2024-06-30T12:00:00''"
  by (simp_all add: later_env_def)

theorem audit_deterministic_witness:
  "tls_handshake later_env = tls_handshake (example_env 0) \<and>
   http_get later_env = http_get (example_env 0) \<and>
   http_head later_env = http_head (example_env 0) \<and>
   netloc later_env = netloc (example_env 0) \<and>
   html_parser later_env = html_parser (example_env 0) \<and>
   list_all (\<lambda>k. rand later_env (rng_pos later_state + k) =
                  rand (example_env 0) (rng_pos initial_state + k)) [0, 1, 2, 3] \<and>
   (\<exists>rep. fst (audit (example_env 0) (Some ''example.com'') initial_state) = Inr rep \<and>
          timestamp rep = ''2024-01-01T00:00:00'' \<and>
          fst (audit later_env (Some ''example.com'') later_state) =
            Inr (rep\<lparr>timestamp := ''2024-06-30T12:00:00''\<rparr>))"
proof -
  let ?d = "Some ''example.com''"
  have draws: "\<forall>k<4. rand later_env (rng_pos later_state + k) =
                      rand (example_env 0) (rng_pos initial_state + k)"
    by (simp add: later_env_fields example_draw)
  have eq: "map_sum id (timestamp_update (\<lambda>t. [])) (fst (audit later_env ?d later_state)) =
            map_sum id (timestamp_update (\<lambda>t. [])) (fst (audit (example_env 0) ?d initial_state))"
    by (rule audit_deterministic [OF later_env_fields(1-5) draws])
  obtain rep where a: "fst (audit (example_env 0) ?d initial_state) = Inr rep"
    using example_audit [of 0 ?d initial_state] by auto
  have ta: "timestamp rep = ''2024-01-01T00:00:00''"
    using audit_timestamp [OF a] by (simp add: example_fetch)
  obtain rep2 where b: "fst (audit later_env ?d later_state) = Inr rep2"
    using eq a by (cases "fst (audit later_env ?d later_state)") auto
  have tb: "timestamp rep2 = ''2024-06-30T12:00:00''"
    using audit_timestamp [OF b] by (simp add: later_env_fields)
  have "rep2\<lparr>timestamp := []\<rparr> = rep\<lparr>timestamp := []\<rparr>"
    using eq a b by simp
  then have "(rep2\<lparr>timestamp := []\<rparr>)\<lparr>timestamp := ''2024-06-30T12:00:00''\<rparr> =
             (rep\<lparr>timestamp := []\<rparr>)\<lparr>timestamp := ''2024-06-30T12:00:00''\<rparr>"
    by simp
  then have "rep2 = rep\<lparr>timestamp := ''2024-06-30T12:00:00''\<rparr>"
    using tb by (cases rep2) simp
  then show ?thesis
    using a b ta by (simp add: later_env_fields example_draw)
qed

end
